theory Spec2Isabelle
  imports Main
begin

section \<open>Pages (data\_ingestion/models.py)\<close>

text \<open>
  A \<open>Page\<close> is a pydantic model with ten fields. Timestamps (\<open>datetime\<close>) and the
  priority (\<open>float\<close>) are only stored and copied by the code, never computed with, so
  the record is parametric in their types \<open>'d\<close> and \<open>'f\<close>. The field \<open>section\<close> is
  called \<open>section_name\<close> here, \<open>section\<close> being a keyword of Isabelle.
\<close>

record ('d, 'f) page =
  url :: string
  md_url :: string
  title :: "string option"
  md :: "string option"
  lastmod :: "'d option"
  priority :: "'f option"
  section_name :: "string option"
  source :: string
  loaded :: bool
  scraped_at :: "'d option"

text \<open>
  What \<open>session.get(url, timeout=...)\<close> does is decided by the network: either the call
  raises (connection error, timeout), or it returns a response with a status code and a
  body.
\<close>

datatype http_outcome = Get_Raises | Response (status_code: int) (resp_text: string)

text \<open>\<open>Response.raise_for_status\<close> of requests raises for the status codes 400 to 599.\<close>

definition raise_for_status :: "int \<Rightarrow> bool" where
  "raise_for_status code \<longleftrightarrow> 400 \<le> code \<and> code < 600"

text \<open>
  The body of the \<open>try\<close> block of \<open>Page.load\<close> up to the value of \<open>content\<close>; \<open>None\<close>
  stands for an exception, which the \<open>except Exception\<close> clause catches. The optional
  \<open>clean_fn\<close> is a callable that may itself raise, so it returns an option.
\<close>

definition fetch_content ::
  "http_outcome \<Rightarrow> (string \<Rightarrow> string option) option \<Rightarrow> string option" where
  "fetch_content r clean_fn =
     (case r of
        Get_Raises \<Rightarrow> None
      | Response code content \<Rightarrow>
          if raise_for_status code then None
          else (case clean_fn of None \<Rightarrow> Some content | Some f \<Rightarrow> f content))"

text \<open>
  \<open>Page.load\<close>: the outcome of the GET and the reading of the clock are inputs; the
  result is the returned flag and the page after the call.
\<close>

definition load ::
  "http_outcome \<Rightarrow> 'd \<Rightarrow> (string \<Rightarrow> string option) option \<Rightarrow> ('d, 'f) page
     \<Rightarrow> bool \<times> ('d, 'f) page" where
  "load r now clean_fn p =
     (case fetch_content r clean_fn of
        Some content \<Rightarrow> (True, p\<lparr>md := Some content, loaded := True, scraped_at := Some now\<rparr>)
      | None \<Rightarrow> (False, p\<lparr>loaded := False\<rparr>))"

text \<open>
  The invariant the specification gives for a page: a loaded page has a non-empty body
  and a fetch timestamp, a page that is not loaded has no body.
\<close>

definition page_invariant :: "('d, 'f) page \<Rightarrow> bool" where
  "page_invariant p \<longleftrightarrow>
     (loaded p \<longrightarrow> (\<exists>s. md p = Some s \<and> s \<noteq> []) \<and> scraped_at p \<noteq> None) \<and>
     (\<not> loaded p \<longrightarrow> md p = None)"

section \<open>The scraper (data\_ingestion/scrapper.py)\<close>

text \<open>
  Pages are objects that \<open>scrape\<close> mutates in place, and a list may hold the same object
  twice. So a page list is a list of references into a store of pages.
\<close>

type_synonym ref = nat
type_synonym ('d, 'f) store = "ref \<Rightarrow> ('d, 'f) page"

text \<open>
  The world of a scraper: the outcome of its \<open>k\<close>-th GET (of a given address) and the
  reading of the clock at that call.
\<close>

record 'd world =
  get_outcome :: "nat \<Rightarrow> string \<Rightarrow> http_outcome"
  clock :: "nat \<Rightarrow> 'd"

text \<open>
  The guard \<open>if limit and i >= limit: break\<close> of both loops. \<open>limit\<close> is an optional
  Python int; \<open>None\<close> and \<open>0\<close> are falsy.
\<close>

definition limit_reached :: "int option \<Rightarrow> nat \<Rightarrow> bool" where
  "limit_reached limit i =
     (case limit of None \<Rightarrow> False | Some l \<Rightarrow> l \<noteq> 0 \<and> int i \<ge> l)"

fun scrape_loop ::
  "'d world \<Rightarrow> (string \<Rightarrow> string option) option \<Rightarrow> int option \<Rightarrow> nat \<Rightarrow> ref list
     \<Rightarrow> ('d, 'f) store \<Rightarrow> ('d, 'f) store" where
  "scrape_loop w clean_fn limit i [] h = h"
| "scrape_loop w clean_fn limit i (r # rs) h =
     (if limit_reached limit i then h
      else scrape_loop w clean_fn limit (Suc i) rs
             (h(r := snd (load (get_outcome w i (md_url (h r))) (clock w i) clean_fn (h r)))))"

text \<open>\<open>DocScraper.scrape\<close> returns the list it was given, and leaves the store updated.\<close>

definition scrape ::
  "'d world \<Rightarrow> (string \<Rightarrow> string option) option \<Rightarrow> ref list \<Rightarrow> int option
     \<Rightarrow> ('d, 'f) store \<Rightarrow> ref list \<times> ('d, 'f) store" where
  "scrape w clean_fn pages limit h = (pages, scrape_loop w clean_fn limit 0 pages h)"

section \<open>The chunker (data\_ingestion/chunker.py)\<close>

text \<open>
  The values of a metadata dictionary, and a LangChain \<open>Document\<close>.
\<close>

datatype 'f mval = MNone | MStr string | MFloat 'f | MBool bool | MInt int

record 'f document =
  page_content :: string
  metadata :: "string \<rightharpoonup> 'f mval"

text \<open>\<open>Page.to_metadata\<close>; \<open>isoformat\<close> is the method of \<open>datetime\<close>.\<close>

definition opt_mval :: "('a \<Rightarrow> 'f mval) \<Rightarrow> 'a option \<Rightarrow> 'f mval" where
  "opt_mval f x = (case x of None \<Rightarrow> MNone | Some v \<Rightarrow> f v)"

definition to_metadata :: "('d \<Rightarrow> string) \<Rightarrow> ('d, 'f) page \<Rightarrow> (string \<rightharpoonup> 'f mval)" where
  "to_metadata isoformat p =
     [''url'' \<mapsto> MStr (url p),
      ''md_url'' \<mapsto> MStr (md_url p),
      ''title'' \<mapsto> opt_mval MStr (title p),
      ''section'' \<mapsto> opt_mval MStr (section_name p),
      ''source'' \<mapsto> MStr (source p),
      ''priority'' \<mapsto> opt_mval MFloat (priority p),
      ''lastmod'' \<mapsto> opt_mval (\<lambda>d. MStr (isoformat d)) (lastmod p),
      ''scraped_at'' \<mapsto> opt_mval (\<lambda>d. MStr (isoformat d)) (scraped_at p),
      ''loaded'' \<mapsto> MBool (loaded p)]"

text \<open>What the chunker logs.\<close>

datatype log_event =
    Warning_empty_document
  | Info_created nat
  | Warning_no_markdown string
  | Info_page_chunks "string option" nat
  | Info_total nat

text \<open>
  The two splitters are objects of the LangChain library, not code of this repository:
  \<open>split_text\<close> of the header splitter and \<open>split_documents\<close> of the recursive splitter
  are parameters of the chunker.
\<close>

record 'f splitters =
  header_split_text :: "string \<Rightarrow> 'f document list"
  recursive_split_documents :: "'f document list \<Rightarrow> 'f document list"

text \<open>
  The inner loop of \<open>chunk\<close>: \<open>enumerate(sub_chunks)\<close>, the metadata update and the
  index.
\<close>

definition tag_chunk :: "(string \<rightharpoonup> 'f mval) \<Rightarrow> nat \<times> 'f document \<Rightarrow> 'f document" where
  "tag_chunk m ic =
     (snd ic)\<lparr>metadata := (metadata (snd ic) ++ m)(''chunk_index'' \<mapsto> MInt (int (fst ic)))\<rparr>"

definition chunk_segment ::
  "'f splitters \<Rightarrow> (string \<rightharpoonup> 'f mval) \<Rightarrow> 'f document \<Rightarrow> 'f document list" where
  "chunk_segment sp m doc =
     map (tag_chunk m) (enumerate 0 (recursive_split_documents sp [doc]))"

definition chunk ::
  "'f splitters \<Rightarrow> string \<Rightarrow> (string \<rightharpoonup> 'f mval) option
     \<Rightarrow> 'f document list \<times> log_event list" where
  "chunk sp txt meta =
     (if txt = [] then ([], [Warning_empty_document])
      else
        let header_docs = header_split_text sp txt;
            m = (case meta of None \<Rightarrow> Map.empty | Some m' \<Rightarrow> m');
            docs = concat (map (chunk_segment sp m) header_docs)
        in (docs, [Info_created (length docs)]))"

text \<open>
  The loop of \<open>chunk_pages\<close>. It only reads the pages, so it takes them by value.
  \<open>not getattr(page, "md", None)\<close> holds for an absent and for an empty body.
\<close>

definition no_markdown :: "('d, 'f) page \<Rightarrow> bool" where
  "no_markdown p \<longleftrightarrow> (case md p of None \<Rightarrow> True | Some s \<Rightarrow> s = [])"

fun chunk_pages_loop ::
  "'f splitters \<Rightarrow> ('d \<Rightarrow> string) \<Rightarrow> int option \<Rightarrow> nat \<Rightarrow> ('d, 'f) page list
     \<Rightarrow> 'f document list \<times> log_event list" where
  "chunk_pages_loop sp isofmt limit i [] = ([], [])"
| "chunk_pages_loop sp isofmt limit i (p # ps) =
     (if limit_reached limit i then ([], [])
      else if no_markdown p then
        (let rest = chunk_pages_loop sp isofmt limit (Suc i) ps
         in (fst rest, Warning_no_markdown (url p) # snd rest))
      else
        (let res = chunk sp (the (md p)) (Some (to_metadata isofmt p));
             rest = chunk_pages_loop sp isofmt limit (Suc i) ps
         in (fst res @ fst rest,
             snd res @ Info_page_chunks (title p) (length (fst res)) # snd rest)))"

definition chunk_pages ::
  "'f splitters \<Rightarrow> ('d \<Rightarrow> string) \<Rightarrow> ('d, 'f) page list \<Rightarrow> int option
     \<Rightarrow> 'f document list \<times> log_event list" where
  "chunk_pages sp isofmt pages limit =
     (let res = chunk_pages_loop sp isofmt limit 0 pages
      in (fst res, snd res @ [Info_total (length (fst res))]))"

text \<open>
  The \<open>chunk_index\<close> entries of a chunk sequence, and the sequence \<open>0, \<dots>, n - 1\<close> of
  such entries.
\<close>

definition chunk_indices :: "'f document list \<Rightarrow> 'f mval option list" where
  "chunk_indices docs = map (\<lambda>c. metadata c ''chunk_index'') docs"

definition index_run :: "nat \<Rightarrow> 'f mval option list" where
  "index_run n = map (\<lambda>i. Some (MInt (int i))) [0..<n]"

section \<open>Utilities (data\_ingestion/utils.py)\<close>

subsection \<open>Strings\<close>

text \<open>
  Characters are code points below 256. \<open>is_space\<close> is Python's \<open>str.isspace\<close> on them,
  which is also the white space class of the \<open>re\<close> module for \<open>str\<close> patterns; \<open>strip\<close> is
  \<open>str.strip()\<close> and \<open>join_with sep\<close> is \<open>sep.join\<close>.
\<close>

definition is_space :: "char \<Rightarrow> bool" where
  "is_space c \<longleftrightarrow>
     c \<in> {CHR 0x09, CHR 0x0A, CHR 0x0B, CHR 0x0C, CHR 0x0D, CHR 0x1C, CHR 0x1D, CHR 0x1E,
          CHR 0x1F, CHR 0x20, CHR 0x85, CHR 0xA0}"

definition strip :: "string \<Rightarrow> string" where
  "strip s = rev (dropWhile is_space (rev (dropWhile is_space s)))"

fun join_with :: "string \<Rightarrow> string list \<Rightarrow> string" where
  "join_with sep [] = []"
| "join_with sep [x] = x"
| "join_with sep (x # y # ys) = x @ sep @ join_with sep (y # ys)"

subsection \<open>Sitemap metadata and reconciliation\<close>

text \<open>
  The values of the sitemap mapping are the dictionaries
  \<open>{"lastmod": lastmod, "priority": priority}\<close> that \<open>extract_metadata_from_sitemap\<close>
  builds; \<open>merge_pages_with_sitemap\<close> reads them with \<open>.get\<close>, so an entry is a record of
  two optional fields.
\<close>

record ('d, 'f) sitemap_entry =
  entry_lastmod :: "'d option"
  entry_priority :: "'f option"

type_synonym ('d, 'f) sitemap_meta = "string \<rightharpoonup> ('d, 'f) sitemap_entry"

text \<open>
  \<open>merge_pages_with_sitemap\<close> assigns to the fields of the page objects and returns the
  list it was given. \<open>enrich\<close> is the body of its loop.
\<close>

definition enrich :: "('d, 'f) sitemap_meta \<Rightarrow> ('d, 'f) page \<Rightarrow> ('d, 'f) page" where
  "enrich meta p =
     (case meta (url p) of
        None \<Rightarrow> p
      | Some e \<Rightarrow> p\<lparr>lastmod := entry_lastmod e, priority := entry_priority e\<rparr>)"

fun merge_loop :: "('d, 'f) sitemap_meta \<Rightarrow> ref list \<Rightarrow> ('d, 'f) store \<Rightarrow> ('d, 'f) store" where
  "merge_loop meta [] h = h"
| "merge_loop meta (r # rs) h = merge_loop meta rs (h(r := enrich meta (h r)))"

definition merge_pages_with_sitemap ::
  "ref list \<Rightarrow> ('d, 'f) sitemap_meta \<Rightarrow> ('d, 'f) store \<Rightarrow> ref list \<times> ('d, 'f) store" where
  "merge_pages_with_sitemap pages meta h = (pages, merge_loop meta pages h)"

text \<open>\<open>safe_request\<close>: the body of the response, or \<open>None\<close> after any exception.\<close>

definition safe_request :: "http_outcome \<Rightarrow> string option" where
  "safe_request r =
     (case r of
        Get_Raises \<Rightarrow> None
      | Response code content \<Rightarrow> if raise_for_status code then None else Some content)"

text \<open>
  An element of \<open>xml.etree.ElementTree\<close>: its tag (\<open>{uri}name\<close> for a name in a
  namespace), its text and its children. \<open>ET.fromstring\<close>, \<open>dateutil\<close>'s \<open>parse\<close> and
  \<open>float\<close> are parameters of the model, returning \<open>None\<close> where they raise.
\<close>

datatype xml = XElem (xtag: string) (xtext: "string option") (xchildren: "xml list")

datatype py_error = ParseError | AttributeError

text \<open>
  \<open>str.find\<close> of one character, and the slice \<open>s[a:b]\<close> with Python's treatment of
  negative and too large bounds; \<open>sitemap_namespace\<close> is the expression
  \<open>root.tag[root.tag.find("{")+1:root.tag.find("}")]\<close> under its guard.
\<close>

definition str_find :: "char \<Rightarrow> string \<Rightarrow> int" where
  "str_find c s = (if c \<in> set s then int (length (takeWhile (\<lambda>x. x \<noteq> c) s)) else - 1)"

definition slice_bound :: "nat \<Rightarrow> int \<Rightarrow> nat" where
  "slice_bound n i = (if i < 0 then nat (int n + i) else min (nat i) n)"

definition py_slice :: "string \<Rightarrow> int \<Rightarrow> int \<Rightarrow> string" where
  "py_slice s a b =
     (let lo = slice_bound (length s) a; hi = slice_bound (length s) b
      in take (hi - lo) (drop lo s))"

definition sitemap_namespace :: "string \<Rightarrow> string option" where
  "sitemap_namespace tag =
     (if CHR ''{'' \<in> set tag
      then Some (py_slice tag (str_find CHR ''{'' tag + 1) (str_find CHR ''}'' tag))
      else None)"

text \<open>
  The path \<open>"ns:url" if ns else "url"\<close> with the prefix resolved: \<open>find\<close> and \<open>findall\<close>
  look among the children of an element for the tag \<open>{uri}url\<close>, or \<open>url\<close> when the
  root has no namespace.
\<close>

definition qname :: "string option \<Rightarrow> string \<Rightarrow> string" where
  "qname ns name = (case ns of None \<Rightarrow> name | Some uri \<Rightarrow> ''{'' @ uri @ ''}'' @ name)"

definition xml_find :: "string \<Rightarrow> xml \<Rightarrow> xml option" where
  "xml_find tag e = List.find (\<lambda>c. xtag c = tag) (xchildren e)"

definition xml_findall :: "string \<Rightarrow> xml \<Rightarrow> xml list" where
  "xml_findall tag e = filter (\<lambda>c. xtag c = tag) (xchildren e)"

text \<open>
  The two guarded conversions of the loop body,
  \<open>if elem is not None and elem.text: try: ... parse(elem.text.strip()) except: pass\<close>.
\<close>

definition parse_field :: "(string \<Rightarrow> 'a option) \<Rightarrow> xml option \<Rightarrow> 'a option" where
  "parse_field parse elem =
     (case elem of
        None \<Rightarrow> None
      | Some e \<Rightarrow>
          (case xtext e of
             None \<Rightarrow> None
           | Some t \<Rightarrow> if t = [] then None else parse (strip t)))"

text \<open>
  One iteration of the loop over the \<open>url\<close> elements: \<open>Inl\<close> when it raises
  (\<open>loc_elem.text\<close> with \<open>loc_elem\<close> being \<open>None\<close>), \<open>Inr None\<close> for \<open>continue\<close>, and
  otherwise the key and the entry stored.
\<close>

definition sitemap_url_entry ::
  "string option \<Rightarrow> (string \<Rightarrow> 'd option) \<Rightarrow> (string \<Rightarrow> 'f option) \<Rightarrow> xml
     \<Rightarrow> py_error + (string \<times> ('d, 'f) sitemap_entry) option" where
  "sitemap_url_entry ns parse_date parse_float url_tag =
     (case xml_find (qname ns ''loc'') url_tag of
        None \<Rightarrow> Inl AttributeError
      | Some loc_elem \<Rightarrow>
          (case xtext loc_elem of
             None \<Rightarrow> Inr None
           | Some t \<Rightarrow>
               if t = [] then Inr None
               else Inr (Some (strip t,
                 \<lparr>entry_lastmod = parse_field parse_date (xml_find (qname ns ''lastmod'') url_tag),
                  entry_priority =
                    parse_field parse_float (xml_find (qname ns ''priority'') url_tag)\<rparr>))))"

fun sitemap_loop ::
  "string option \<Rightarrow> (string \<Rightarrow> 'd option) \<Rightarrow> (string \<Rightarrow> 'f option) \<Rightarrow> xml list
     \<Rightarrow> ('d, 'f) sitemap_meta \<Rightarrow> py_error + ('d, 'f) sitemap_meta" where
  "sitemap_loop ns parse_date parse_float [] meta = Inr meta"
| "sitemap_loop ns parse_date parse_float (u # us) meta =
     (case sitemap_url_entry ns parse_date parse_float u of
        Inl e \<Rightarrow> Inl e
      | Inr None \<Rightarrow> sitemap_loop ns parse_date parse_float us meta
      | Inr (Some (loc, entry)) \<Rightarrow>
          sitemap_loop ns parse_date parse_float us (meta(loc \<mapsto> entry)))"

definition extract_metadata_from_sitemap ::
  "http_outcome \<Rightarrow> (string \<Rightarrow> xml option) \<Rightarrow> (string \<Rightarrow> 'd option) \<Rightarrow> (string \<Rightarrow> 'f option)
     \<Rightarrow> py_error + ('d, 'f) sitemap_meta" where
  "extract_metadata_from_sitemap r fromstring parse_date parse_float =
     (case safe_request r of
        None \<Rightarrow> Inr Map.empty
      | Some txt \<Rightarrow>
          if txt = [] then Inr Map.empty
          else (case fromstring txt of
                  None \<Rightarrow> Inl ParseError
                | Some root \<Rightarrow>
                    let ns = sitemap_namespace (xtag root)
                    in sitemap_loop ns parse_date parse_float
                         (xml_findall (qname ns ''url'') root) Map.empty))"

subsection \<open>The regular expression of \<open>clean_markdown_content\<close>\<close>

text \<open>
  The pattern of \<open>clean_markdown_content\<close> (start of line, white space, \<open>{%\<close>, white
  space, a lazy run of characters other than newline, white space, \<open>%}\<close>, white space,
  end of line) is a sequence of anchors, literal characters and
  greedy or lazy repetitions of a character class. \<open>re_match\<close> is the backtracking
  matcher of Python's \<open>re\<close> for such sequences in \<open>MULTILINE\<close> mode: a greedy repetition
  tries the longest run first, a lazy one the shortest, \<open>^\<close> matches at the start of the
  string and after a newline, \<open>$\<close> at its end and before a newline. The flag tells
  whether the position is at the start of a line; the result is the position after the
  match.
\<close>

datatype re_item = Bol | Eol | Lit char | Greedy "char \<Rightarrow> bool" | Lazy "char \<Rightarrow> bool"

fun re_match :: "re_item list \<Rightarrow> bool \<Rightarrow> string \<Rightarrow> (bool \<times> string) option" where
  "re_match [] b s = Some (b, s)"
| "re_match (Bol # r) b s = (if b then re_match r b s else None)"
| "re_match (Eol # r) b s =
     (if s = [] \<or> hd s = CHR 0x0A then re_match r b s else None)"
| "re_match (Lit c # r) b [] = None"
| "re_match (Lit c # r) b (x # s) = (if x = c then re_match r (x = CHR 0x0A) s else None)"
| "re_match (Greedy P # r) b [] = re_match r b []"
| "re_match (Greedy P # r) b (x # s) =
     (if P x
      then (case re_match (Greedy P # r) (x = CHR 0x0A) s of
              Some m \<Rightarrow> Some m
            | None \<Rightarrow> re_match r b (x # s))
      else re_match r b (x # s))"
| "re_match (Lazy P # r) b [] = re_match r b []"
| "re_match (Lazy P # r) b (x # s) =
     (case re_match r b (x # s) of
        Some m \<Rightarrow> Some m
      | None \<Rightarrow> if P x then re_match (Lazy P # r) (x = CHR 0x0A) s else None)"

text \<open>
  \<open>re.sub(pattern, "", s)\<close>: scanning from the left, every non-empty match is deleted and
  the scan goes on behind it; where nothing matches, a character is copied. Deleting an
  empty match changes nothing.
\<close>

function re_sub :: "re_item list \<Rightarrow> bool \<Rightarrow> string \<Rightarrow> string" where
  "re_sub r b s =
     (case re_match r b s of
        Some (b', s') \<Rightarrow>
          if length s' < length s then re_sub r b' s'
          else (case s of [] \<Rightarrow> [] | x # xs \<Rightarrow> x # re_sub r (x = CHR 0x0A) xs)
      | None \<Rightarrow> (case s of [] \<Rightarrow> [] | x # xs \<Rightarrow> x # re_sub r (x = CHR 0x0A) xs))"
  by pat_completeness auto
termination
  by (relation "measure (\<lambda>(r, b, s). length s)") auto

definition gitbook_tag_line :: "re_item list" where
  "gitbook_tag_line =
     [Bol, Greedy is_space, Lit CHR ''{'', Lit CHR ''%'', Greedy is_space,
      Lazy (\<lambda>c. c \<noteq> CHR 0x0A), Greedy is_space, Lit CHR ''%'', Lit CHR ''}'',
      Greedy is_space, Eol]"

definition remove_tag_lines :: "string \<Rightarrow> string" where
  "remove_tag_lines s = re_sub gitbook_tag_line True s"

declare re_sub.simps [simp del]

subsection \<open>HTML tables\<close>

text \<open>
  The tree of BeautifulSoup: the strings that \<open>get_text\<close> collects (of the classes
  \<open>NavigableString\<close> and \<open>CData\<close>), the strings that it skips (comments, declarations,
  the text of \<open>script\<close> and \<open>style\<close>), and tags. \<open>descendants\<close> is the \<open>.descendants\<close> generator, in document order,
  on which \<open>find_all\<close> and \<open>get_text\<close> are built; \<open>get_text(sep, strip=True)\<close> strips every
  string, drops the empty ones and joins the rest.
\<close>

datatype node =
    NavigableString string
  | CData string
  | SpecialString string
  | Tag (tag_name: string) (tag_attrs: "(string \<times> string) list") (tag_contents: "node list")

fun descendants :: "node \<Rightarrow> node list" where
  "descendants (Tag n a cs) = concat (map (\<lambda>c. c # descendants c) cs)"
| "descendants (NavigableString s) = []"
| "descendants (CData s) = []"
| "descendants (SpecialString s) = []"

definition is_tag :: "string \<Rightarrow> node \<Rightarrow> bool" where
  "is_tag name x = (case x of Tag n a cs \<Rightarrow> n = name | _ \<Rightarrow> False)"

definition find_all :: "string \<Rightarrow> node \<Rightarrow> node list" where
  "find_all name t = filter (is_tag name) (descendants t)"

definition soup_find_all :: "string \<Rightarrow> node list \<Rightarrow> node list" where
  "soup_find_all name soup = filter (is_tag name) (concat (map (\<lambda>c. c # descendants c) soup))"

definition all_strings :: "node \<Rightarrow> string list" where
  "all_strings t =
     concat (map (\<lambda>x. case x of NavigableString s \<Rightarrow> [s] | CData s \<Rightarrow> [s] | _ \<Rightarrow> [])
       (descendants t))"

definition get_text :: "string \<Rightarrow> node \<Rightarrow> string" where
  "get_text separator t =
     join_with separator (filter (\<lambda>s. s \<noteq> []) (map strip (all_strings t)))"

text \<open>The body of the loop of \<open>convert_html_tables_to_markdown\<close>, for one table.\<close>

definition table_headers :: "node \<Rightarrow> string list" where
  "table_headers table = map (get_text []) (find_all ''th'' table)"

definition table_rows :: "node \<Rightarrow> string list list" where
  "table_rows table =
     filter (\<lambda>cells. cells \<noteq> [])
       (map (\<lambda>tr. map (get_text '' '') (find_all ''td'' tr)) (find_all ''tr'' table))"

definition table_lines :: "node \<Rightarrow> string list" where
  "table_lines table =
     [''**Table:**''] @
     (if table_headers table \<noteq> []
      then [join_with '' | '' (table_headers table),
            join_with '' | '' (replicate (length (table_headers table)) ''---'')]
      else []) @
     map (join_with '' | '') (table_rows table)"

definition table_md :: "node \<Rightarrow> string" where
  "table_md table = join_with [CHR 0x0A] (table_lines table)"

text \<open>
  The loop runs over \<open>soup.find_all("table")\<close>, a list made before the first
  replacement, in document order. A table is replaced by a string before the tables
  nested in it are reached; those are then replaced inside the detached table, which
  no longer belongs to the document. So the document ends with each outermost table
  replaced by the text made from the whole of that table.
\<close>

fun convert_node :: "node \<Rightarrow> node" where
  "convert_node (Tag n a cs) =
     (if n = ''table'' then NavigableString ([CHR 0x0A] @ table_md (Tag n a cs) @ [CHR 0x0A])
      else Tag n a (map convert_node cs))"
| "convert_node (NavigableString s) = NavigableString s"
| "convert_node (CData s) = CData s"
| "convert_node (SpecialString s) = SpecialString s"

text \<open>
  The parser \<open>BeautifulSoup(md, "html.parser")\<close> and the serialiser \<open>str(soup)\<close> belong
  to the library and are parameters.
\<close>

record soup_lib =
  parse_html :: "string \<Rightarrow> node list"
  decode :: "node list \<Rightarrow> string"

definition convert_html_tables_to_markdown :: "soup_lib \<Rightarrow> string \<Rightarrow> string" where
  "convert_html_tables_to_markdown lib s = decode lib (map convert_node (parse_html lib s))"

definition clean_markdown_content :: "soup_lib \<Rightarrow> string \<Rightarrow> string" where
  "clean_markdown_content lib s =
     strip (convert_html_tables_to_markdown lib (remove_tag_lines s))"

text \<open>
  What the theorems on the text of the output assume of the serialiser: it writes the
  nodes of a document one after the other, a string with \<open>&\<close>, \<open><\<close> and \<open>>\<close> replaced
  by entities (the default formatter of the library), and a tag as its contents between
  an opening and a closing text.
\<close>

fun html_escape :: "string \<Rightarrow> string" where
  "html_escape [] = []"
| "html_escape (c # cs) =
     (if c = CHR ''&'' then ''&amp;''
      else if c = CHR ''<'' then ''&lt;''
      else if c = CHR ''>'' then ''&gt;''
      else [c]) @ html_escape cs"




section \<open>Concrete splitters and sample inputs\<close>

text \<open>
  Modelled from the spec: the LangChain classes \<open>MarkdownHeaderTextSplitter\<close> and
  \<open>RecursiveCharacterTextSplitter\<close> are not part of the repository. Stage 1: "split the
  document on markdown heading boundaries (levels 1--3 by default), preserving heading
  text in each resulting segment and attaching the heading path as metadata on each
  segment", and "a document with no headings is treated as one implicit Stage-1 segment
  spanning the whole document". The general theorems below hold for every pair of
  splitters; these two are only used to evaluate the chunker on concrete documents.
\<close>

fun split_lines :: "string \<Rightarrow> string list" where
  "split_lines [] = [[]]"
| "split_lines (c # cs) =
     (if c = CHR 0x0A then [] # split_lines cs
      else (case split_lines cs of [] \<Rightarrow> [[c]] | l # ls \<Rightarrow> (c # l) # ls))"

definition heading_level :: "string \<Rightarrow> nat option" where
  "heading_level line =
     (let n = length (takeWhile (\<lambda>c. c = CHR ''#'') line);
          rest = dropWhile (\<lambda>c. c = CHR ''#'') line
      in if 1 \<le> n \<and> n \<le> 3 \<and> (rest = [] \<or> hd rest = CHR '' '') then Some n else None)"

definition heading_key :: "nat \<Rightarrow> string" where
  "heading_key k =
     (if k = 1 then ''Header_1'' else if k = 2 then ''Header_2'' else ''Header_3'')"

definition heading_title :: "string \<Rightarrow> string" where
  "heading_title line =
     dropWhile (\<lambda>c. c = CHR '' '') (dropWhile (\<lambda>c. c = CHR ''#'') line)"

definition enter_heading :: "nat \<Rightarrow> string \<Rightarrow> (nat \<times> string) list \<Rightarrow> (nat \<times> string) list" where
  "enter_heading k t path = filter (\<lambda>(j, _). j < k) path @ [(k, t)]"

definition path_metadata :: "(nat \<times> string) list \<Rightarrow> (string \<rightharpoonup> 'f mval)" where
  "path_metadata path = map_of (map (\<lambda>(k, t). (heading_key k, MStr t)) path)"

definition make_segment :: "(nat \<times> string) list \<Rightarrow> string list \<Rightarrow> 'f document" where
  "make_segment path ls =
     \<lparr>page_content = join_with [CHR 0x0A] ls, metadata = path_metadata path\<rparr>"

fun heading_segments ::
  "(nat \<times> string) list \<Rightarrow> string list \<Rightarrow> string list \<Rightarrow> 'f document list" where
  "heading_segments path cur [] = (if cur = [] then [] else [make_segment path cur])"
| "heading_segments path cur (l # ls) =
     (case heading_level l of
        None \<Rightarrow> heading_segments path (cur @ [l]) ls
      | Some k \<Rightarrow>
          (if cur = [] then [] else [make_segment path cur]) @
          heading_segments (enter_heading k (heading_title l) path) [l] ls)"

definition heading_split :: "string \<Rightarrow> 'f document list" where
  "heading_split txt = heading_segments [] [] (split_lines txt)"

text \<open>
  Modelled from the spec: Stage 2, "for each Stage-1 segment independently, recursively
  split into windows of at most \<open>chunk_size\<close> (default 1000, measured in a token-aware
  unit, not raw characters) with \<open>chunk_overlap\<close> (default 100) of shared trailing/leading
  content between consecutive windows within the same segment, preferring to split at
  paragraph/sentence/word boundaries before falling back to hard character cuts". The
  unit of measure and the boundaries are parameters. A text within \<open>chunk_size\<close> is one
  window. A longer text is cut at the first kind of boundary, the pieces that are still
  too long at the next kind, and at last into single characters; \<open>merge_windows\<close> then
  fills each window with as many consecutive pieces as fit and starts the next window
  with the trailing pieces of the last one that are within \<open>chunk_overlap\<close>.
\<close>

fun pieces_at :: "string \<Rightarrow> string \<Rightarrow> string \<Rightarrow> string list" where
  "pieces_at sep acc [] = (if acc = [] then [] else [rev acc])"
| "pieces_at sep acc (c # cs) =
     (if sep \<noteq> [] \<and> take (length sep) (c # acc) = rev sep
      then rev (c # acc) # pieces_at sep [] cs
      else pieces_at sep (c # acc) cs)"

fun atoms :: "(string \<Rightarrow> nat) \<Rightarrow> nat \<Rightarrow> string list \<Rightarrow> string \<Rightarrow> string list" where
  "atoms measure_of chunk_size [] t =
     (if measure_of t \<le> chunk_size then [t] else map (\<lambda>c. [c]) t)"
| "atoms measure_of chunk_size (sep # seps) t =
     (if measure_of t \<le> chunk_size then [t]
      else concat (map (atoms measure_of chunk_size seps) (pieces_at sep [] t)))"

fun keep_tail :: "(string list \<Rightarrow> bool) \<Rightarrow> string list \<Rightarrow> string list" where
  "keep_tail ok [] = []"
| "keep_tail ok (x # xs) = (if ok (x # xs) then x # xs else keep_tail ok xs)"

fun merge_windows ::
  "(string \<Rightarrow> nat) \<Rightarrow> nat \<Rightarrow> nat \<Rightarrow> string list \<Rightarrow> string list \<Rightarrow> string list" where
  "merge_windows measure_of chunk_size chunk_overlap cur [] =
     (if cur = [] then [] else [concat cur])"
| "merge_windows measure_of chunk_size chunk_overlap cur (p # ps) =
     (if cur = [] \<or> measure_of (concat cur @ p) \<le> chunk_size
      then merge_windows measure_of chunk_size chunk_overlap (cur @ [p]) ps
      else concat cur #
           merge_windows measure_of chunk_size chunk_overlap
             (keep_tail (\<lambda>tail. measure_of (concat tail) \<le> chunk_overlap \<and>
                                measure_of (concat tail @ p) \<le> chunk_size) (tl cur) @ [p])
             ps)"

definition bounded_split ::
  "(string \<Rightarrow> nat) \<Rightarrow> nat \<Rightarrow> nat \<Rightarrow> string list \<Rightarrow> 'f document list
     \<Rightarrow> 'f document list" where
  "bounded_split measure_of chunk_size chunk_overlap seps docs =
     concat (map (\<lambda>d. map (\<lambda>t. d\<lparr>page_content := t\<rparr>)
                        (if page_content d = [] then []
                         else merge_windows measure_of chunk_size chunk_overlap []
                                (atoms measure_of chunk_size seps (page_content d))))
                 docs)"

text \<open>
  Modelled from the spec: the "token-aware unit". The tokenizer is not part of the
  repository; a token is taken here to be a maximal run of characters other than white
  space. Every document used below has far fewer than 1000 characters, so it is within
  1000 units for every tokenizer whose tokens span at least one character, and each of
  its segments is one window, as it is for the chunker of the repository with its
  default sizes. The boundaries are the blank line, the full stop and the blank.
\<close>

fun count_tokens :: "bool \<Rightarrow> string \<Rightarrow> nat" where
  "count_tokens inside [] = 0"
| "count_tokens inside (c # cs) =
     (if is_space c then count_tokens False cs
      else (if inside then 0 else 1) + count_tokens True cs)"

definition token_count :: "string \<Rightarrow> nat" where
  "token_count s = count_tokens False s"

definition sample_splitters :: "nat splitters" where
  "sample_splitters =
     \<lparr>header_split_text = heading_split,
      recursive_split_documents =
        bounded_split token_count 1000 100 [[CHR 0x0A, CHR 0x0A], ''. '', '' '']\<rparr>"

text \<open>A document with two headings.\<close>

definition two_headings :: string where
  "two_headings =
     ''# A'' @ [CHR 0x0A] @ ''some longer text'' @ [CHR 0x0A] @ ''# B'' @ [CHR 0x0A] @ ''bar''"

definition sample_isoformat :: "nat \<Rightarrow> string" where
  "sample_isoformat d = replicate d CHR ''I''"

text \<open>
  A page as discovery creates it, the same page after a successful fetch, and that page
  after a second fetch that failed.
\<close>

definition sample_page :: "(nat, nat) page" where
  "sample_page =
     \<lparr>url = ''https://docs.example/proxies/a'', md_url = ''https://docs.example/proxies/a.md'',
      title = Some ''A'', md = None, lastmod = None, priority = None,
      section_name = Some ''proxies'', source = ''llms.txt'', loaded = False,
      scraped_at = None\<rparr>"

definition loaded_page :: "(nat, nat) page" where
  "loaded_page = sample_page\<lparr>md := Some ''old body'', loaded := True, scraped_at := Some 7\<rparr>"

definition stale_page :: "(nat, nat) page" where
  "stale_page = snd (load Get_Raises 9 None loaded_page)"

text \<open>Three page objects, and a network on which the second address cannot be reached.\<close>

definition sample_store :: "(nat, nat) store" where
  "sample_store r =
     (if r = 0 then sample_page
      else if r = 1 then
        sample_page\<lparr>url := ''https://docs.example/proxies/b'',
                     md_url := ''https://docs.example/proxies/b.md'', title := Some ''B''\<rparr>
      else
        sample_page\<lparr>url := ''https://docs.example/proxies/c'',
                     md_url := ''https://docs.example/proxies/c.md'', title := Some ''C''\<rparr>)"

definition sample_world :: "nat world" where
  "sample_world =
     \<lparr>get_outcome = (\<lambda>k u. if u = ''https://docs.example/proxies/b.md'' then Get_Raises
                            else Response 200 ''# Title''),
      clock = (\<lambda>k. 100 + k)\<rparr>"

text \<open>
  A network on which the second address answers 304 with an empty body, and a store
  whose second page was loaded on an earlier run.
\<close>

definition redirect_world :: "nat world" where
  "redirect_world =
     \<lparr>get_outcome = (\<lambda>k u. if u = ''https://docs.example/proxies/b.md'' then Response 304 []
                            else Response 200 ''# Title''),
      clock = (\<lambda>k. 100 + k)\<rparr>"

definition revisit_store :: "(nat, nat) store" where
  "revisit_store =
     sample_store(1 := (sample_store 1)\<lparr>md := Some ''old body'', loaded := True,
                                         scraped_at := Some 7\<rparr>)"

text \<open>
  A parser and a serialiser for a fragment of HTML, to evaluate \<open>clean_markdown_content\<close>
  on concrete inputs: text without entities, comments or declarations, and tags
  \<open><name>\<close> and \<open></name>\<close> without attributes, properly nested. As in the library, tag
  names are put in lower case, a void element such as \<open><br>\<close> has no contents and no
  closing tag, and is written \<open><br/>\<close>. On this fragment they agree with the library.
\<close>

definition void_tags :: "string list" where
  "void_tags =
     [''area'', ''base'', ''br'', ''col'', ''embed'', ''hr'', ''img'', ''input'', ''keygen'',
      ''link'', ''menuitem'', ''meta'', ''param'', ''source'', ''track'', ''wbr'']"

definition ascii_lower :: "char \<Rightarrow> char" where
  "ascii_lower c =
     (if 65 \<le> (of_char c :: nat) \<and> (of_char c :: nat) \<le> 90
      then char_of ((of_char c :: nat) + 32) else c)"

fun sample_decode_node :: "node \<Rightarrow> string" where
  "sample_decode_node (NavigableString s) = html_escape s"
| "sample_decode_node (CData s) = ''<![CDATA['' @ s @ '']]>''"
| "sample_decode_node (SpecialString s) = s"
| "sample_decode_node (Tag n a cs) =
     (if cs = [] \<and> n \<in> set void_tags then ''<'' @ n @ ''/>''
      else ''<'' @ n @ ''>'' @ concat (map sample_decode_node cs) @ ''</'' @ n @ ''>'')"

datatype token = Text_token string | Open_token string | Close_token string

fun tokenize :: "bool \<Rightarrow> string \<Rightarrow> string \<Rightarrow> token list" where
  "tokenize False acc [] = (if acc = [] then [] else [Text_token (rev acc)])"
| "tokenize True acc [] = [Text_token (CHR ''<'' # rev acc)]"
| "tokenize False acc (c # cs) =
     (if c = CHR ''<''
      then (if acc = [] then [] else [Text_token (rev acc)]) @ tokenize True [] cs
      else tokenize False (c # acc) cs)"
| "tokenize True acc (c # cs) =
     (if c = CHR ''>''
      then (case rev acc of
              [] \<Rightarrow> Open_token []
            | x # n \<Rightarrow>
                if x = CHR ''/'' then Close_token (map ascii_lower n)
                else Open_token (map ascii_lower (x # n)))
           # tokenize False [] cs
      else tokenize True (c # acc) cs)"

fun push_node ::
  "node \<Rightarrow> (string \<times> node list) list \<Rightarrow> node list
     \<Rightarrow> (string \<times> node list) list \<times> node list" where
  "push_node x [] root = ([], x # root)"
| "push_node x ((n, kids) # st) root = ((n, x # kids) # st, root)"

fun close_all :: "(string \<times> node list) list \<Rightarrow> node list \<Rightarrow> node list" where
  "close_all [] root = rev root"
| "close_all [(n, kids)] root = rev (Tag n [] (rev kids) # root)"
| "close_all ((n, kids) # (m, kids') # st) root =
     close_all ((m, Tag n [] (rev kids) # kids') # st) root"

fun build_tree :: "(string \<times> node list) list \<Rightarrow> node list \<Rightarrow> token list \<Rightarrow> node list" where
  "build_tree st root [] = close_all st root"
| "build_tree st root (Text_token s # ts) =
     (case push_node (NavigableString s) st root of (st', root') \<Rightarrow> build_tree st' root' ts)"
| "build_tree st root (Open_token n # ts) =
     (if n \<in> set void_tags
      then (case push_node (Tag n [] []) st root of (st', root') \<Rightarrow> build_tree st' root' ts)
      else build_tree ((n, []) # st) root ts)"
| "build_tree [] root (Close_token n # ts) = build_tree [] root ts"
| "build_tree ((m, kids) # st) root (Close_token n # ts) =
     (if m = n
      then (case push_node (Tag m [] (rev kids)) st root of (st', root') \<Rightarrow> build_tree st' root' ts)
      else build_tree ((m, kids) # st) root ts)"

definition sample_parse :: "string \<Rightarrow> node list" where
  "sample_parse s = build_tree [] [] (tokenize False [] s)"

definition sample_lib :: soup_lib where
  "sample_lib = \<lparr>parse_html = sample_parse, decode = (\<lambda>ns. concat (map sample_decode_node ns))\<rparr>"

text \<open>
  A page with a directive line and a table of two header cells and two data rows, the
  tree of that table, and a directive that encloses another one.
\<close>

definition sample_table_md :: string where
  "sample_table_md =
     ''Intro'' @ [CHR 0x0A] @ ''{% hint style=info %}'' @ [CHR 0x0A] @
     ''<table><tr><th>K</th><th>V</th></tr><tr><td>a</td><td>1</td></tr>'' @
     ''<tr><td>b<br>c</td><td> 2 </td></tr></table>'' @ [CHR 0x0A] @ ''End''"

definition sample_table :: node where
  "sample_table =
     Tag ''table'' []
       [Tag ''tr'' [] [Tag ''th'' [] [NavigableString ''K''], Tag ''th'' [] [NavigableString ''V'']],
        Tag ''tr'' [] [Tag ''td'' [] [NavigableString ''a''], Tag ''td'' [] [NavigableString ''1'']],
        Tag ''tr'' []
          [Tag ''td'' [] [NavigableString ''b'', Tag ''br'' [] [], NavigableString ''c''],
           Tag ''td'' [] [NavigableString '' 2 '']]]"

definition nested_tag :: string where
  "nested_tag = ''{% x'' @ [CHR 0x0A] @ ''{% a %}'' @ [CHR 0x0A] @ ''%}''"



text \<open>
  A sitemap in a namespace with a malformed priority in its first entry and a malformed
  date in its second, the tree \<open>ET.fromstring\<close> makes of it, and the library functions on
  the strings used below (every other document being rejected as not well-formed, every
  other date or number as malformed). Dates and numbers are named by natural numbers.
\<close>

definition sample_sitemap_xml :: string where
  "sample_sitemap_xml =
     ''<urlset xmlns=\"urn:sm\">'' @
     ''<url><loc> https://docs.example/proxies/a </loc>'' @
     ''<lastmod>2024-01-02</lastmod><priority>high</priority></url>'' @
     ''<url><loc>https://docs.example/proxies/c</loc>'' @
     ''<lastmod>yesterday</lastmod><priority>0.5</priority></url></urlset>''"

definition sample_sitemap_tree :: xml where
  "sample_sitemap_tree =
     XElem ''{urn:sm}urlset'' None
       [XElem ''{urn:sm}url'' None
          [XElem ''{urn:sm}loc'' (Some '' https://docs.example/proxies/a '') [],
           XElem ''{urn:sm}lastmod'' (Some ''2024-01-02'') [],
           XElem ''{urn:sm}priority'' (Some ''high'') []],
        XElem ''{urn:sm}url'' None
          [XElem ''{urn:sm}loc'' (Some ''https://docs.example/proxies/c'') [],
           XElem ''{urn:sm}lastmod'' (Some ''yesterday'') [],
           XElem ''{urn:sm}priority'' (Some ''0.5'') []]]"

definition sample_fromstring :: "string \<Rightarrow> xml option" where
  "sample_fromstring s = (if s = sample_sitemap_xml then Some sample_sitemap_tree else None)"

definition sample_parse_date :: "string \<Rightarrow> nat option" where
  "sample_parse_date s = (if s = ''2024-01-02'' then Some 20 else None)"

definition sample_parse_float :: "string \<Rightarrow> nat option" where
  "sample_parse_float s = (if s = ''0.5'' then Some 5 else None)"

definition sample_meta :: "(nat, nat) sitemap_meta" where
  "sample_meta =
     [''https://docs.example/proxies/a'' \<mapsto>
        \<lparr>entry_lastmod = Some 20, entry_priority = None\<rparr>,
      ''https://docs.example/proxies/c'' \<mapsto>
        \<lparr>entry_lastmod = None, entry_priority = Some 5\<rparr>]"

section \<open>Properties of \<open>Page.load\<close>\<close>

lemma fetch_content_None_iff:
  "fetch_content r clean_fn = None \<longleftrightarrow>
     (case r of Get_Raises \<Rightarrow> True
      | Response code content \<Rightarrow>
          raise_for_status code \<or> (case clean_fn of None \<Rightarrow> False | Some f \<Rightarrow> f content = None))"
  by (simp add: fetch_content_def split: http_outcome.splits option.splits)

lemma load_md_url [simp]: "md_url (snd (load r now cf p)) = md_url p"
  by (simp add: load_def split: option.splits)

lemma load_failure:
  "fetch_content r cf = None \<Longrightarrow> load r now cf p = (False, p\<lparr>loaded := False\<rparr>)"
  by (simp add: load_def)

lemma load_success:
  "fetch_content r cf = Some c \<Longrightarrow>
     load r now cf p = (True, p\<lparr>md := Some c, loaded := True, scraped_at := Some now\<rparr>)"
  by (simp add: load_def)

text \<open>
  Claim C10. When \<open>Page.load\<close> fails for any reason (the GET raises, the status is an
  error status, or the cleaning function raises), it returns false and the page after the
  call is the page before it with \<open>loaded\<close> set to false: \<open>md\<close> and \<open>scraped_at\<close> keep
  the values they had, so a page that was loaded before keeps its old body and timestamp.
\<close>

theorem load_failure_frame:
  "fetch_content r clean_fn = None \<Longrightarrow>
     load r now clean_fn p = (False, p\<lparr>loaded := False\<rparr>) \<and>
     md (snd (load r now clean_fn p)) = md p \<and>
     scraped_at (snd (load r now clean_fn p)) = scraped_at p"
  by (simp add: load_def)

theorem load_failure_frame_witness:
  "fetch_content Get_Raises None = None \<and>
   fst (load Get_Raises (9::nat) None loaded_page) = False \<and>
   loaded (snd (load Get_Raises (9::nat) None loaded_page)) = False \<and>
   md (snd (load Get_Raises (9::nat) None loaded_page)) = Some ''old body'' \<and>
   scraped_at (snd (load Get_Raises (9::nat) None loaded_page)) = Some 7"
proof -
  have f: "fetch_content Get_Raises None = None"
    by (simp add: fetch_content_def)
  show ?thesis
    using f load_failure_frame [OF f, of 9 loaded_page]
    by (simp add: loaded_page_def sample_page_def)
qed

text \<open>
  Claim C2, as stated, fails: a fetch that succeeds with an empty body leaves the page
  with \<open>loaded = True\<close> and the empty string as its body, which the invariant excludes.
\<close>

theorem load_breaks_invariant:
  "\<not> page_invariant (snd (load (Response 200 []) (9::nat) None sample_page))"
  by (simp add: page_invariant_def load_def fetch_content_def raise_for_status_def
      sample_page_def)

text \<open>
  Claim C2, amended. After \<open>Page.load\<close>, a page with \<open>loaded = True\<close> has a body (the
  fetched content, possibly empty) and the timestamp of the call; a page with
  \<open>loaded = False\<close> has the body and the timestamp it had before the call, so its body is
  absent whenever it was absent before.
\<close>

theorem load_postcondition:
  "(loaded (snd (load r now cf p)) \<longrightarrow>
      md (snd (load r now cf p)) = fetch_content r cf \<and> fetch_content r cf \<noteq> None \<and>
      scraped_at (snd (load r now cf p)) = Some now) \<and>
   (\<not> loaded (snd (load r now cf p)) \<longrightarrow>
      md (snd (load r now cf p)) = md p \<and>
      scraped_at (snd (load r now cf p)) = scraped_at p)"
  by (simp add: load_def split: option.splits)

theorem load_postcondition_witness:
  "loaded (snd (load (Response 200 ''# T'') (9::nat) None sample_page)) \<and>
   md (snd (load (Response 200 ''# T'') (9::nat) None sample_page)) = Some ''# T'' \<and>
   scraped_at (snd (load (Response 200 ''# T'') (9::nat) None sample_page)) = Some 9 \<and>
   \<not> loaded (snd (load (Response 404 ''gone'') (9::nat) None sample_page)) \<and>
   md (snd (load (Response 404 ''gone'') (9::nat) None sample_page)) = None"
proof -
  have a: "fetch_content (Response 200 ''# T'') None = Some ''# T''"
    by (simp add: fetch_content_def raise_for_status_def)
  have b: "\<not> loaded (snd (load (Response 404 ''gone'') (9::nat) None sample_page))"
    by (simp add: load_def fetch_content_def raise_for_status_def sample_page_def)
  have c: "loaded (snd (load (Response 200 ''# T'') (9::nat) None sample_page))"
    by (simp add: load_def a)
  show ?thesis
    using a b c
      load_postcondition [of "Response 200 ''# T''" 9 None sample_page]
      load_postcondition [of "Response 404 ''gone''" 9 None sample_page]
    by (simp add: sample_page_def)
qed

section \<open>Properties of \<open>DocScraper.scrape\<close>\<close>

lemma scrape_loop_outside:
  "r \<notin> set rs \<Longrightarrow> scrape_loop w cf limit i rs h r = h r"
  by (induction rs arbitrary: i h) auto

lemma scrape_loop_nth:
  "distinct rs \<Longrightarrow> j < length rs \<Longrightarrow>
     scrape_loop w cf None i rs h (rs ! j) =
       snd (load (get_outcome w (i + j) (md_url (h (rs ! j)))) (clock w (i + j)) cf (h (rs ! j)))"
proof (induction rs arbitrary: i j h)
  case Nil
  then show ?case by simp
next
  case (Cons r rs)
  show ?case
  proof (cases j)
    case 0
    with Cons.prems show ?thesis
      by (simp add: limit_reached_def scrape_loop_outside)
  next
    case (Suc k)
    with Cons.prems have k: "k < length rs" and d: "distinct rs" and ne: "rs ! k \<noteq> r"
      by auto
    from Cons.IH [OF d k] Suc ne show ?thesis
      by (simp add: limit_reached_def)
  qed
qed



text \<open>
  Claim C6, as stated, fails. A status outside 200--299 is not always a failure:
  \<open>raise_for_status\<close> raises for 400 to 599 only, so of three pages whose second is
  answered with 304, none ends with \<open>loaded = False\<close>, and the second holds the empty body.
  A failed fetch does not leave the body absent either: a page loaded on an earlier run
  keeps its old body. And when the list holds one page object twice, one failed fetch
  shows as two entries with \<open>loaded = False\<close>.
\<close>

theorem scrape_keeps_non_2xx_and_old_body:
  "length (filter (\<lambda>r. \<not> loaded (snd (scrape redirect_world None [0, 1, 2] None sample_store) r))
            [0, 1, 2]) = 0 \<and>
   loaded (snd (scrape redirect_world None [0, 1, 2] None sample_store) 1) \<and>
   md (snd (scrape redirect_world None [0, 1, 2] None sample_store) 1) = Some [] \<and>
   \<not> loaded (snd (scrape sample_world None [0, 1, 2] None revisit_store) 1) \<and>
   md (snd (scrape sample_world None [0, 1, 2] None revisit_store) 1) = Some ''old body'' \<and>
   length (filter (\<lambda>r. \<not> loaded (snd (scrape sample_world None [1, 1, 0] None sample_store) r))
            [1, 1, 0]) = 2"
  by (simp add: scrape_def limit_reached_def redirect_world_def sample_world_def
      revisit_store_def sample_store_def sample_page_def load_def fetch_content_def
      raise_for_status_def)

text \<open>
  Claim C6, amended. For every list of distinct page objects, \<open>scrape\<close> returns the list
  it was given. A fetch fails when the GET raises (network error, timeout), when the
  status is between 400 and 599, or when the cleaning function raises; the page then ends
  with \<open>loaded = False\<close> and the body it had before (absent, for a page that had none). A
  response with any other status is stored: the page ends with \<open>loaded = True\<close> and the
  cleaned body. Every page gets the result of its own fetch, so the number of pages left
  with \<open>loaded = False\<close> is the number of failed fetches: one failure among three pages
  leaves exactly one page unloaded. The model has no exceptional result, as \<open>load\<close>
  catches every exception.
\<close>

theorem scrape_isolates_failures:
  assumes "distinct pages"
  shows "fst (scrape w cf pages None h) = pages \<and>
    (\<forall>i < length pages.
       (get_outcome w i (md_url (h (pages ! i))) = Get_Raises \<longrightarrow>
          \<not> loaded (snd (scrape w cf pages None h) (pages ! i)) \<and>
          md (snd (scrape w cf pages None h) (pages ! i)) = md (h (pages ! i))) \<and>
       (\<forall>code body. get_outcome w i (md_url (h (pages ! i))) = Response code body \<longrightarrow>
          (400 \<le> code \<and> code < 600 \<longrightarrow>
             \<not> loaded (snd (scrape w cf pages None h) (pages ! i)) \<and>
             md (snd (scrape w cf pages None h) (pages ! i)) = md (h (pages ! i))) \<and>
          (code < 400 \<or> 600 \<le> code \<longrightarrow>
             (cf = None \<longrightarrow>
                loaded (snd (scrape w cf pages None h) (pages ! i)) \<and>
                md (snd (scrape w cf pages None h) (pages ! i)) = Some body) \<and>
             (\<forall>f. cf = Some f \<longrightarrow>
                (f body = None \<longrightarrow>
                   \<not> loaded (snd (scrape w cf pages None h) (pages ! i)) \<and>
                   md (snd (scrape w cf pages None h) (pages ! i)) = md (h (pages ! i))) \<and>
                (\<forall>c. f body = Some c \<longrightarrow>
                   loaded (snd (scrape w cf pages None h) (pages ! i)) \<and>
                   md (snd (scrape w cf pages None h) (pages ! i)) = Some c))))) \<and>
    length (filter (\<lambda>r. \<not> loaded (snd (scrape w cf pages None h) r)) pages) =
      length (filter
        (\<lambda>i. case get_outcome w i (md_url (h (pages ! i))) of
               Get_Raises \<Rightarrow> True
             | Response code body \<Rightarrow>
                 (400 \<le> code \<and> code < 600) \<or>
                 (case cf of None \<Rightarrow> False | Some f \<Rightarrow> f body = None))
        [0..<length pages])"
proof -
  let ?h' = "snd (scrape w cf pages None h)"
  let ?out = "\<lambda>i. get_outcome w i (md_url (h (pages ! i)))"
  let ?fail = "\<lambda>i. case ?out i of
               Get_Raises \<Rightarrow> True
             | Response code body \<Rightarrow>
                 (400 \<le> code \<and> code < 600) \<or>
                 (case cf of None \<Rightarrow> False | Some f \<Rightarrow> f body = None)"
  have nth: "?h' (pages ! i) = snd (load (?out i) (clock w i) cf (h (pages ! i)))"
    if "i < length pages" for i
    using scrape_loop_nth [OF assms that, of w cf 0 h] by (simp add: scrape_def)
  have fail_iff: "?fail i = (fetch_content (?out i) cf = None)" for i
    by (auto simp: fetch_content_def raise_for_status_def split: http_outcome.splits option.splits)
  have point: "(?out i = Get_Raises \<longrightarrow>
          \<not> loaded (?h' (pages ! i)) \<and> md (?h' (pages ! i)) = md (h (pages ! i))) \<and>
       (\<forall>code body. ?out i = Response code body \<longrightarrow>
          (400 \<le> code \<and> code < 600 \<longrightarrow>
             \<not> loaded (?h' (pages ! i)) \<and> md (?h' (pages ! i)) = md (h (pages ! i))) \<and>
          (code < 400 \<or> 600 \<le> code \<longrightarrow>
             (cf = None \<longrightarrow> loaded (?h' (pages ! i)) \<and> md (?h' (pages ! i)) = Some body) \<and>
             (\<forall>f. cf = Some f \<longrightarrow>
                (f body = None \<longrightarrow>
                   \<not> loaded (?h' (pages ! i)) \<and> md (?h' (pages ! i)) = md (h (pages ! i))) \<and>
                (\<forall>c. f body = Some c \<longrightarrow>
                   loaded (?h' (pages ! i)) \<and> md (?h' (pages ! i)) = Some c))))"
    if "i < length pages" for i
    unfolding nth [OF that] by (auto simp: load_def fetch_content_def raise_for_status_def)
  have unl: "(\<not> loaded (?h' (pages ! i))) = ?fail i" if "i < length pages" for i
    unfolding fail_iff nth [OF that]
    by (cases "fetch_content (?out i) cf") (simp_all add: load_def)
  have "{i. i < length pages \<and> \<not> loaded (?h' (pages ! i))} = {i. i < length pages \<and> ?fail i}"
    using unl by blast
  then have "length (filter (\<lambda>r. \<not> loaded (?h' r)) pages) =
      card {i. i < length pages \<and> ?fail i}"
    by (simp add: length_filter_conv_card)
  also have "\<dots> = length (filter ?fail [0..<length pages])"
    unfolding length_filter_conv_card by (rule arg_cong [where f = card]) auto
  finally have cnt: "length (filter (\<lambda>r. \<not> loaded (?h' r)) pages) =
      length (filter ?fail [0..<length pages])" .
  have "fst (scrape w cf pages None h) = pages"
    by (simp add: scrape_def)
  with point cnt show ?thesis by blast
qed

theorem scrape_isolates_failures_witness:
  "distinct [0, 1, 2 :: nat] \<and>
   get_outcome sample_world 1 (md_url (sample_store 1)) = Get_Raises \<and>
   fst (scrape sample_world None [0, 1, 2] None sample_store) = [0, 1, 2] \<and>
   length (filter (\<lambda>r. \<not> loaded (snd (scrape sample_world None [0, 1, 2] None sample_store) r))
             [0, 1, 2]) = 1 \<and>
   \<not> loaded (snd (scrape sample_world None [0, 1, 2] None sample_store) 1) \<and>
   md (snd (scrape sample_world None [0, 1, 2] None sample_store) 1) = None \<and>
   loaded (snd (scrape sample_world None [0, 1, 2] None sample_store) 0) \<and>
   md (snd (scrape sample_world None [0, 1, 2] None sample_store) 0) = Some ''# Title''"
proof -
  have d: "distinct [0, 1, 2 :: nat]" by simp
  note inst = scrape_isolates_failures [OF d, of sample_world None sample_store]
  have o: "get_outcome sample_world 0 (md_url (sample_store 0)) = Response 200 ''# Title''"
    "get_outcome sample_world 1 (md_url (sample_store 1)) = Get_Raises"
    "get_outcome sample_world 2 (md_url (sample_store 2)) = Response 200 ''# Title''"
    by (simp_all add: sample_world_def sample_store_def sample_page_def)
  have m: "md (sample_store 1) = None"
    by (simp add: sample_store_def sample_page_def)
  have lt: "0 < length [0, 1, 2 :: nat]" "1 < length [0, 1, 2 :: nat]"
    by simp_all
  from inst have f: "fst (scrape sample_world None [0, 1, 2] None sample_store) = [0, 1, 2]"
    by (rule conjunct1)
  note at0 = inst [THEN conjunct2, THEN conjunct1, rule_format, OF lt(1)]
  note at1 = inst [THEN conjunct2, THEN conjunct1, rule_format, OF lt(2)]
  from at1 o m
  have p1: "\<not> loaded (snd (scrape sample_world None [0, 1, 2] None sample_store) 1)"
    "md (snd (scrape sample_world None [0, 1, 2] None sample_store) 1) = None"
    by simp_all
  from at0 o
  have p0: "loaded (snd (scrape sample_world None [0, 1, 2] None sample_store) 0)"
    "md (snd (scrape sample_world None [0, 1, 2] None sample_store) 0) = Some ''# Title''"
    by simp_all
  have c: "length (filter (\<lambda>r. \<not> loaded (snd (scrape sample_world None [0, 1, 2] None
      sample_store) r)) [0, 1, 2]) = 1"
    by (rule trans [OF inst [THEN conjunct2, THEN conjunct2]])
      (simp add: upt_rec sample_world_def sample_store_def sample_page_def)
  from d o(2) f c p1 p0 show ?thesis
    by (simp only: simp_thms)
qed

section \<open>Properties of the chunker\<close>



lemma chunk_indices_append [simp]:
  "chunk_indices (xs @ ys) = chunk_indices xs @ chunk_indices ys"
  by (simp add: chunk_indices_def)

lemma chunk_indices_concat:
  "chunk_indices (concat xss) = concat (map chunk_indices xss)"
  by (induction xss) (simp_all add: chunk_indices_def)

lemma chunk_indices_segment:
  "chunk_indices (chunk_segment sp m doc) =
     index_run (length (recursive_split_documents sp [doc]))"
proof -
  let ?xs = "recursive_split_documents sp [doc]"
  let ?f = "\<lambda>i. Some (MInt (int i)) :: 'a mval option"
  have "chunk_indices (chunk_segment sp m doc) = map (?f \<circ> fst) (enumerate 0 ?xs)"
    by (simp add: chunk_indices_def chunk_segment_def tag_chunk_def o_def)
  also have "\<dots> = map ?f (map fst (enumerate 0 ?xs))"
    by (simp only: map_map)
  also have "\<dots> = map ?f [0..<length ?xs]"
    by (simp only: map_fst_enumerate add_0)
  finally show ?thesis
    by (simp only: index_run_def)
qed

lemma to_metadata_url: "to_metadata isofmt p ''url'' = Some (MStr (url p))"
  by (simp add: to_metadata_def)

lemma chunk_keeps_page_metadata:
  assumes "c \<in> set (fst (chunk sp txt (Some m)))" and "m k = Some v" and "k \<noteq> ''chunk_index''"
  shows "metadata c k = Some v"
proof -
  from assms(1) obtain seg ic where "c = tag_chunk m ic"
    by (auto simp: chunk_def Let_def chunk_segment_def split: if_splits)
  with assms(2,3) show ?thesis
    by (simp add: tag_chunk_def map_add_def)
qed

lemma chunk_pages_loop_None:
  "fst (chunk_pages_loop sp isofmt None i ps) =
     concat (map (\<lambda>p. fst (chunk sp (the (md p)) (Some (to_metadata isofmt p))))
                 (filter (\<lambda>p. \<not> no_markdown p) ps))"
  by (induction ps arbitrary: i) (simp_all add: limit_reached_def Let_def)

lemma chunk_pages_loop_origin:
  "c \<in> set (fst (chunk_pages_loop sp isofmt limit i ps)) \<Longrightarrow>
     \<exists>p \<in> set ps. \<not> no_markdown p \<and> metadata c ''url'' = Some (MStr (url p))"
proof (induction ps arbitrary: i)
  case Nil
  then show ?case by simp
next
  case (Cons p ps)
  show ?case
  proof (cases "limit_reached limit i")
    case True
    with Cons.prems show ?thesis by simp
  next
    case False
    show ?thesis
    proof (cases "no_markdown p")
      case True
      with False Cons.prems have "c \<in> set (fst (chunk_pages_loop sp isofmt limit (Suc i) ps))"
        by (simp add: Let_def)
      from Cons.IH [OF this] show ?thesis by auto
    next
      case nm: False
      with False Cons.prems
      consider "c \<in> set (fst (chunk sp (the (md p)) (Some (to_metadata isofmt p))))"
        | "c \<in> set (fst (chunk_pages_loop sp isofmt limit (Suc i) ps))"
        by (auto simp: Let_def)
      then show ?thesis
      proof cases
        case 1
        from chunk_keeps_page_metadata [OF 1 to_metadata_url] nm show ?thesis by simp
      next
        case 2
        from Cons.IH [OF 2] show ?thesis by auto
      qed
    qed
  qed
qed

lemma not_no_markdown: "(\<not> no_markdown p) = (md p \<noteq> None \<and> md p \<noteq> Some [])"
  by (simp add: no_markdown_def split: option.splits)

lemmas sample_chunk_defs =
  chunk_pages_def chunk_def sample_splitters_def heading_split_def heading_level_def
  enter_heading_def make_segment_def bounded_split_def token_count_def is_space_def chunk_segment_def tag_chunk_def
  enumerate_eq_zip limit_reached_def no_markdown_def Let_def

text \<open>
  Claim C7, as stated, fails: \<open>chunk_pages\<close> tests the body, not the \<open>loaded\<close> flag. A
  page whose second fetch failed has \<open>loaded = False\<close> and still its old body, and it is
  chunked.
\<close>

theorem chunk_pages_keeps_unloaded_page:
  "\<not> loaded stale_page \<and>
   map page_content (fst (chunk_pages sample_splitters sample_isoformat [stale_page] None)) =
     [''old body'']"
  by (simp add: stale_page_def load_def fetch_content_def loaded_page_def sample_page_def
      sample_chunk_defs upt_rec)

text \<open>
  Claim C7, amended. \<open>chunk_pages\<close> excludes every page whose body is absent or empty,
  whatever its \<open>loaded\<close> flag: its output is the concatenation of the chunks of the
  pages that have a non-empty body, every chunk it returns carries the address of such
  a page, and \<open>chunk\<close> on the empty document returns no chunk and logs one warning.
\<close>

theorem chunk_pages_skips_missing_markdown:
  "fst (chunk_pages sp isofmt pages None) =
     concat (map (\<lambda>p. fst (chunk sp (the (md p)) (Some (to_metadata isofmt p))))
                 (filter (\<lambda>p. md p \<noteq> None \<and> md p \<noteq> Some []) pages)) \<and>
   (\<forall>c \<in> set (fst (chunk_pages sp isofmt pages limit)).
      \<exists>p \<in> set pages. md p \<noteq> None \<and> md p \<noteq> Some [] \<and>
        metadata c ''url'' = Some (MStr (url p))) \<and>
   chunk sp [] meta = ([], [Warning_empty_document])"
proof -
  note nm = not_no_markdown
  have a: "fst (chunk_pages sp isofmt pages None) =
     concat (map (\<lambda>p. fst (chunk sp (the (md p)) (Some (to_metadata isofmt p))))
                 (filter (\<lambda>p. md p \<noteq> None \<and> md p \<noteq> Some []) pages))"
    by (simp only: chunk_pages_def Let_def fst_conv chunk_pages_loop_None nm)
  have b: "\<exists>p \<in> set pages. md p \<noteq> None \<and> md p \<noteq> Some [] \<and>
        metadata c ''url'' = Some (MStr (url p))"
    if "c \<in> set (fst (chunk_pages sp isofmt pages limit))" for c
    using chunk_pages_loop_origin [of c sp isofmt limit 0 pages] that
    by (simp add: chunk_pages_def Let_def nm)
  have c: "chunk sp [] meta = ([], [Warning_empty_document])"
    by (simp add: chunk_def)
  from a b c show ?thesis by blast
qed

theorem chunk_pages_skips_missing_markdown_witness:
  "fst (chunk_pages sample_splitters sample_isoformat [sample_page, stale_page] None) =
     fst (chunk sample_splitters ''old body'' (Some (to_metadata sample_isoformat stale_page))) \<and>
   map (\<lambda>c. metadata c ''url'')
     (fst (chunk_pages sample_splitters sample_isoformat [sample_page, stale_page] None)) =
     [Some (MStr ''https://docs.example/proxies/a'')] \<and>
   chunk sample_splitters [] None = ([], [Warning_empty_document])"
proof -
  have s: "md sample_page = None" "md stale_page = Some ''old body''"
    by (simp_all add: stale_page_def load_def fetch_content_def loaded_page_def sample_page_def)
  have e: "map (\<lambda>c. metadata c ''url'')
      (fst (chunk sample_splitters ''old body'' (Some (to_metadata sample_isoformat stale_page)))) =
      [Some (MStr ''https://docs.example/proxies/a'')]"
    by (simp add: stale_page_def load_def fetch_content_def loaded_page_def sample_page_def
        to_metadata_def sample_chunk_defs upt_rec)
  show ?thesis
    using chunk_pages_skips_missing_markdown
      [of sample_splitters sample_isoformat "[sample_page, stale_page]" None None]
    by (simp add: s e)
qed

lemma chunk_indices_per_segment:
  "txt \<noteq> [] \<Longrightarrow>
     chunk_indices (fst (chunk sp txt meta)) =
       concat (map (\<lambda>seg. index_run (length (recursive_split_documents sp [seg])))
                   (header_split_text sp txt))"
  by (simp add: chunk_def Let_def chunk_indices_concat o_def chunk_indices_segment)

text \<open>
  Claim C1. The claim is what the schema of the API says of the field, "Chunk position in
  the document" (\<open>app.py\<close>), and \<open>chunk\<close> breaks it: the counter is the \<open>enumerate\<close> of the
  inner loop, so it restarts at every Stage-1 segment. On a page with two headings, each
  segment being one window, both chunks get the index 0, where the indices \<open>0, 1\<close> are
  claimed.
\<close>

theorem chunk_index_restarts_at_second_heading:
  "map page_content (fst (chunk sample_splitters two_headings None)) =
     [''# A'' @ [CHR 0x0A] @ ''some longer text'', ''# B'' @ [CHR 0x0A] @ ''bar''] \<and>
   chunk_indices (fst (chunk sample_splitters two_headings None)) =
     [Some (MInt 0), Some (MInt 0)] \<and>
   index_run (length (fst (chunk sample_splitters two_headings None))) =
     [Some (MInt 0), Some (MInt 1) :: nat mval option] \<and>
   chunk_indices (fst (chunk sample_splitters two_headings None)) \<noteq>
     index_run (length (fst (chunk sample_splitters two_headings None)))"
  by (simp add: chunk_indices_def index_run_def two_headings_def sample_chunk_defs upt_rec)








section \<open>Properties of the sitemap functions\<close>

lemma enrich_url [simp]: "url (enrich meta p) = url p"
  by (simp add: enrich_def split: option.splits)

lemma enrich_idem [simp]: "enrich meta (enrich meta p) = enrich meta p"
  by (simp add: enrich_def split: option.splits)

lemma merge_loop_result:
  "merge_loop meta rs h r = (if r \<in> set rs then enrich meta (h r) else h r)"
  by (induction rs arbitrary: h) auto

text \<open>
  Claim C5. \<open>merge_pages_with_sitemap\<close> returns the list it was given, so a list of the
  same length; it changes the address of no page; a page whose address is not a key of
  the mapping is left as it was; and a \<open>lastmod\<close> or \<open>priority\<close> that was \<open>None\<close> is set
  only for a page of the list whose address is a key of the mapping.
\<close>

theorem merge_is_left_join:
  "fst (merge_pages_with_sitemap pages meta h) = pages \<and>
   length (fst (merge_pages_with_sitemap pages meta h)) = length pages \<and>
   (\<forall>r. url (snd (merge_pages_with_sitemap pages meta h) r) = url (h r)) \<and>
   (\<forall>r. url (h r) \<notin> dom meta \<longrightarrow> snd (merge_pages_with_sitemap pages meta h) r = h r) \<and>
   (\<forall>r. (lastmod (h r) = None \<and> lastmod (snd (merge_pages_with_sitemap pages meta h) r) \<noteq> None) \<or>
        (priority (h r) = None \<and> priority (snd (merge_pages_with_sitemap pages meta h) r) \<noteq> None)
        \<longrightarrow> r \<in> set pages \<and> url (h r) \<in> dom meta)"
  by (auto simp: merge_pages_with_sitemap_def merge_loop_result enrich_def split: option.splits)

theorem merge_is_left_join_witness:
  "fst (merge_pages_with_sitemap [0, 1] sample_meta sample_store) = [0, 1] \<and>
   url (sample_store 0) \<in> dom sample_meta \<and>
   url (sample_store 1) \<notin> dom sample_meta \<and>
   lastmod (snd (merge_pages_with_sitemap [0, 1] sample_meta sample_store) 0) = Some 20 \<and>
   lastmod (snd (merge_pages_with_sitemap [0, 1] sample_meta sample_store) 1) = None \<and>
   priority (snd (merge_pages_with_sitemap [0, 1] sample_meta sample_store) 1) = None \<and>
   snd (merge_pages_with_sitemap [0, 1] sample_meta sample_store) 1 = sample_store 1 \<and>
   snd (merge_pages_with_sitemap [0, 1] sample_meta sample_store) 2 = sample_store 2"
proof -
  let ?res = "merge_pages_with_sitemap [0, 1] sample_meta sample_store"
  note inst = merge_is_left_join [of "[0, 1]" sample_meta sample_store]
  have u: "url (sample_store 0) \<in> dom sample_meta" "url (sample_store 1) \<notin> dom sample_meta"
    by (simp_all add: sample_store_def sample_page_def sample_meta_def)
  have e: "enrich sample_meta (sample_store 0) =
      (sample_store 0)\<lparr>lastmod := Some 20, priority := None\<rparr>"
    by (simp add: enrich_def sample_store_def sample_page_def sample_meta_def)
  have l: "lastmod (snd ?res 0) = Some 20"
    by (simp add: merge_pages_with_sitemap_def merge_loop_result e)
  have n: "lastmod (sample_store 1) = None" "priority (sample_store 1) = None"
    by (simp_all add: sample_store_def sample_page_def)
  have k: "snd ?res 2 = sample_store 2"
    by (simp add: merge_pages_with_sitemap_def merge_loop_result)
  from inst have f: "fst ?res = [0, 1]"
    by (rule conjunct1)
  from inst u(2) have s: "snd ?res 1 = sample_store 1"
    by blast
  from f u l n k s show ?thesis
    by simp
qed

lemma parse_field_malformed:
  "parse (strip t) = None \<Longrightarrow> parse_field parse (Some (XElem tg (Some t) cs)) = None"
  by (simp add: parse_field_def)

lemma sitemap_url_entry_fields:
  "sitemap_url_entry ns pd pf u = Inr (Some (loc, e)) \<Longrightarrow>
     entry_lastmod e = parse_field pd (xml_find (qname ns ''lastmod'') u) \<and>
     entry_priority e = parse_field pf (xml_find (qname ns ''priority'') u)"
  by (auto simp: sitemap_url_entry_def split: option.splits if_splits)

lemma sitemap_url_entry_no_error:
  "xml_find (qname ns ''loc'') u \<noteq> None \<Longrightarrow> \<exists>x. sitemap_url_entry ns pd pf u = Inr x"
  by (auto simp: sitemap_url_entry_def split: option.splits)

lemma sitemap_loop_no_error:
  "\<forall>u \<in> set us. xml_find (qname ns ''loc'') u \<noteq> None \<Longrightarrow>
     \<exists>m. sitemap_loop ns pd pf us meta = Inr m \<and>
       (\<forall>loc e. m loc = Some e \<longrightarrow>
          meta loc = Some e \<or> (\<exists>u \<in> set us. sitemap_url_entry ns pd pf u = Inr (Some (loc, e))))"
proof (induction us arbitrary: meta)
  case Nil
  then show ?case by simp
next
  case (Cons u us)
  from Cons.prems have ok: "\<forall>u \<in> set us. xml_find (qname ns ''loc'') u \<noteq> None"
    and "xml_find (qname ns ''loc'') u \<noteq> None"
    by simp_all
  then obtain x where x: "sitemap_url_entry ns pd pf u = Inr x"
    using sitemap_url_entry_no_error by blast
  show ?case
  proof (cases x)
    case None
    with x Cons.IH [OF ok, of meta] show ?thesis by auto
  next
    case (Some le)
    obtain loc e where le: "le = (loc, e)" by (cases le)
    from Cons.IH [OF ok, of "meta(loc \<mapsto> e)"]
    obtain m where m: "sitemap_loop ns pd pf us (meta(loc \<mapsto> e)) = Inr m"
      and orig: "\<forall>l e'. m l = Some e' \<longrightarrow> (meta(loc \<mapsto> e)) l = Some e' \<or>
          (\<exists>u \<in> set us. sitemap_url_entry ns pd pf u = Inr (Some (l, e')))"
      by blast
    have "sitemap_loop ns pd pf (u # us) meta = Inr m"
      using x Some le m by simp
    moreover have "meta l = Some e' \<or>
        (\<exists>v \<in> set (u # us). sitemap_url_entry ns pd pf v = Inr (Some (l, e')))"
      if "m l = Some e'" for l e'
      using orig that x Some le by (auto split: if_splits)
    ultimately show ?thesis by blast
  qed
qed

lemma sample_ns: "sitemap_namespace (xtag sample_sitemap_tree) = Some ''urn:sm''"
  by code_simp

lemma sample_urls:
  "xml_findall (qname (Some ''urn:sm'') ''url'') sample_sitemap_tree = xchildren sample_sitemap_tree"
  by (simp add: xml_findall_def qname_def sample_sitemap_tree_def)

lemma sample_entries:
  "map (sitemap_url_entry (Some ''urn:sm'') sample_parse_date sample_parse_float)
     (xchildren sample_sitemap_tree) =
   [Inr (Some (''https://docs.example/proxies/a'',
      \<lparr>entry_lastmod = Some 20, entry_priority = None\<rparr>)),
    Inr (Some (''https://docs.example/proxies/c'',
      \<lparr>entry_lastmod = None, entry_priority = Some 5\<rparr>))]"
  by code_simp

lemma sample_extract:
  "extract_metadata_from_sitemap (Response 200 sample_sitemap_xml) sample_fromstring
     sample_parse_date sample_parse_float = Inr sample_meta"
proof -
  obtain u1 u2 where us: "xchildren sample_sitemap_tree = [u1, u2]"
    by (simp add: sample_sitemap_tree_def)
  have ne: "sample_sitemap_xml \<noteq> []"
    by (simp add: sample_sitemap_xml_def)
  show ?thesis
    using sample_entries ne
    by (simp add: extract_metadata_from_sitemap_def safe_request_def raise_for_status_def
        sample_fromstring_def sample_ns sample_urls us sample_meta_def)
qed

text \<open>
  Claim C3, as stated, fails: \<open>ET.fromstring\<close> is called outside any \<open>try\<close>, so a body
  that is not well-formed XML makes \<open>extract_metadata_from_sitemap\<close> raise instead of
  returning the empty mapping.
\<close>

theorem sitemap_parse_error_propagates:
  "extract_metadata_from_sitemap (Response 200 ''<urlset'') sample_fromstring
     sample_parse_date sample_parse_float = Inl ParseError \<and>
   extract_metadata_from_sitemap (Response 200 ''<urlset'') sample_fromstring
     sample_parse_date sample_parse_float \<noteq> Inr Map.empty"
  by (simp add: extract_metadata_from_sitemap_def safe_request_def raise_for_status_def
      sample_fromstring_def sample_sitemap_xml_def)

text \<open>
  Claim C3, amended. \<open>extract_metadata_from_sitemap\<close> returns the empty mapping when the
  request fails or the body is empty. When the body parses and every \<open>url\<close> element has
  a \<open>loc\<close> child, it returns a mapping and does not raise, and the fields of every entry
  are those of one of the \<open>url\<close> elements, a field whose text the date parser or \<open>float\<close>
  rejects being \<open>None\<close>.
\<close>

theorem sitemap_soft_failures:
  "(safe_request r = None \<or> safe_request r = Some [] \<longrightarrow>
      extract_metadata_from_sitemap r fromstring pd pf = Inr Map.empty) \<and>
   (\<forall>t root. safe_request r = Some t \<and> t \<noteq> [] \<and> fromstring t = Some root \<and>
      (\<forall>u \<in> set (xml_findall (qname (sitemap_namespace (xtag root)) ''url'') root).
         xml_find (qname (sitemap_namespace (xtag root)) ''loc'') u \<noteq> None) \<longrightarrow>
      (\<exists>m. extract_metadata_from_sitemap r fromstring pd pf = Inr m \<and>
         (\<forall>loc e. m loc = Some e \<longrightarrow>
            (\<exists>u \<in> set (xml_findall (qname (sitemap_namespace (xtag root)) ''url'') root).
               entry_lastmod e =
                 parse_field pd (xml_find (qname (sitemap_namespace (xtag root)) ''lastmod'') u) \<and>
               entry_priority e =
                 parse_field pf (xml_find (qname (sitemap_namespace (xtag root)) ''priority'') u))))) \<and>
   (\<forall>s tg cs. pd (strip s) = None \<longrightarrow> parse_field pd (Some (XElem tg (Some s) cs)) = None) \<and>
   (\<forall>s tg cs. pf (strip s) = None \<longrightarrow> parse_field pf (Some (XElem tg (Some s) cs)) = None)"
proof -
  have a: "extract_metadata_from_sitemap r fromstring pd pf = Inr Map.empty"
    if "safe_request r = None \<or> safe_request r = Some []"
    using that by (auto simp: extract_metadata_from_sitemap_def)
  have b: "\<exists>m. extract_metadata_from_sitemap r fromstring pd pf = Inr m \<and>
         (\<forall>loc e. m loc = Some e \<longrightarrow>
            (\<exists>u \<in> set (xml_findall (qname (sitemap_namespace (xtag root)) ''url'') root).
               entry_lastmod e =
                 parse_field pd (xml_find (qname (sitemap_namespace (xtag root)) ''lastmod'') u) \<and>
               entry_priority e =
                 parse_field pf (xml_find (qname (sitemap_namespace (xtag root)) ''priority'') u)))"
    if h: "safe_request r = Some t \<and> t \<noteq> [] \<and> fromstring t = Some root \<and>
      (\<forall>u \<in> set (xml_findall (qname (sitemap_namespace (xtag root)) ''url'') root).
         xml_find (qname (sitemap_namespace (xtag root)) ''loc'') u \<noteq> None)" for t root
  proof -
    let ?ns = "sitemap_namespace (xtag root)"
    let ?us = "xml_findall (qname ?ns ''url'') root"
    from h have "\<forall>u \<in> set ?us. xml_find (qname ?ns ''loc'') u \<noteq> None" by blast
    from sitemap_loop_no_error [OF this, of pd pf Map.empty]
    obtain m where m: "sitemap_loop ?ns pd pf ?us Map.empty = Inr m"
      and orig: "\<forall>loc e. m loc = Some e \<longrightarrow>
          (\<exists>u \<in> set ?us. sitemap_url_entry ?ns pd pf u = Inr (Some (loc, e)))"
      by auto
    from h m have "extract_metadata_from_sitemap r fromstring pd pf = Inr m"
      by (simp add: extract_metadata_from_sitemap_def Let_def)
    with orig show ?thesis
      by (blast dest: sitemap_url_entry_fields)
  qed
  from a b show ?thesis
    by (simp add: parse_field_malformed) blast
qed

theorem sitemap_soft_failures_witness:
  "safe_request Get_Raises = None \<and>
   extract_metadata_from_sitemap Get_Raises sample_fromstring sample_parse_date
     sample_parse_float = Inr Map.empty \<and>
   sample_parse_date (strip ''yesterday'') = None \<and>
   parse_field sample_parse_date (Some (XElem ''{urn:sm}lastmod'' (Some ''yesterday'') [])) = None \<and>
   sample_parse_float (strip ''high'') = None \<and>
   parse_field sample_parse_float (Some (XElem ''{urn:sm}priority'' (Some ''high'') [])) = None \<and>
   extract_metadata_from_sitemap (Response 200 sample_sitemap_xml) sample_fromstring
     sample_parse_date sample_parse_float = Inr sample_meta"
proof -
  have a: "safe_request Get_Raises = None"
    by (simp add: safe_request_def)
  have b: "sample_parse_date (strip ''yesterday'') = None"
    "sample_parse_float (strip ''high'') = None"
    by (simp_all add: sample_parse_date_def sample_parse_float_def strip_def is_space_def)
  show ?thesis
    using a b sample_extract
      sitemap_soft_failures [of Get_Raises sample_fromstring sample_parse_date sample_parse_float]
    by simp
qed

section \<open>Properties of \<open>clean_markdown_content\<close>\<close>

lemma convert_node_not_table: "\<not> is_tag ''table'' (convert_node x)"
  by (cases x) (simp_all add: is_tag_def)

lemma convert_node_no_table_below:
  "y \<in> set (descendants (convert_node x)) \<Longrightarrow> \<not> is_tag ''table'' y"
proof (induction x arbitrary: y)
  case (Tag n a cs)
  show ?case
  proof (cases "n = ''table''")
    case True
    with Tag.prems show ?thesis by simp
  next
    case False
    with Tag.prems obtain c where c: "c \<in> set cs"
      and y: "y = convert_node c \<or> y \<in> set (descendants (convert_node c))"
      by auto
    from y show ?thesis
      using Tag.IH [OF c] convert_node_not_table by blast
  qed
qed simp_all

lemma no_table_left: "soup_find_all ''table'' (map convert_node soup) = []"
  by (auto simp: soup_find_all_def filter_empty_conv convert_node_not_table
      dest: convert_node_no_table_below)

lemma convert_node_idem: "convert_node (convert_node x) = convert_node x"
  by (induction x) simp_all

lemma strip_idem: "strip (strip s) = strip s"
proof -
  define t where "t = dropWhile is_space s"
  define u where "u = dropWhile is_space (rev t)"
  have su: "strip s = rev u"
    by (simp add: strip_def t_def u_def)
  have a: "dropWhile is_space (rev u) = rev u"
  proof (cases u)
    case Nil
    then show ?thesis by simp
  next
    case (Cons x xs)
    have "rev t = takeWhile is_space (rev t) @ u"
      by (simp add: u_def)
    with Cons have "last (rev t) = last u"
      by (metis last_appendR list.distinct(1))
    moreover from Cons have "t \<noteq> []"
      by (auto simp: u_def)
    ultimately have "hd t = last u"
      by (simp add: last_rev)
    moreover have "\<not> is_space (hd t)"
      using \<open>t \<noteq> []\<close> unfolding t_def by (rule hd_dropWhile)
    moreover from Cons have "u \<noteq> []" by simp
    ultimately have "\<not> is_space (hd (rev u))"
      by (simp add: hd_rev)
    with \<open>u \<noteq> []\<close> show ?thesis
      by (cases "rev u") simp_all
  qed
  have b: "dropWhile is_space (rev (rev u)) = rev (rev u)"
    by (simp add: u_def)
  show ?thesis
    unfolding su by (simp add: strip_def a b del: rev_rev_ident) (simp add: u_def)
qed


text \<open>
  Claim C4, as stated, fails: removing the directive line inside a directive that spans
  three lines leaves a text that the pattern matches as a whole (the class of white space matches the
  newlines), so a second run deletes what the first run kept.
\<close>

theorem clean_not_idempotent:
  "clean_markdown_content sample_lib nested_tag = ''{% x'' @ [CHR 0x0A, CHR 0x0A] @ ''%}'' \<and>
   clean_markdown_content sample_lib (clean_markdown_content sample_lib nested_tag) = [] \<and>
   clean_markdown_content sample_lib (clean_markdown_content sample_lib nested_tag) \<noteq>
     clean_markdown_content sample_lib nested_tag"
  by code_simp

text \<open>
  Claim C4, amended. Steps 2 and 3 of \<open>clean\<close> are idempotent: converting the tables of
  a converted tree changes nothing, no table being left in it, and trimming a trimmed
  string changes nothing, so the output of \<open>clean\<close> is always trimmed. Nothing is
  claimed for step 1, the removal of directive lines.
\<close>

theorem clean_steps_idempotent:
  "map convert_node (map convert_node soup) = map convert_node soup \<and>
   soup_find_all ''table'' (map convert_node soup) = [] \<and>
   strip (strip s) = strip s \<and>
   strip (clean_markdown_content lib x) = clean_markdown_content lib x"
  by (simp add: convert_node_idem no_table_left strip_idem clean_markdown_content_def)

theorem clean_steps_idempotent_witness:
  "map convert_node (map convert_node [sample_table]) = map convert_node [sample_table] \<and>
   soup_find_all ''table'' (map convert_node [sample_table]) = [] \<and>
   strip (strip '' a b '') = strip '' a b '' \<and>
   strip (clean_markdown_content sample_lib sample_table_md) =
     clean_markdown_content sample_lib sample_table_md"
  using clean_steps_idempotent [of "[sample_table]" "'' a b ''" sample_lib sample_table_md]
  by simp













end
